theory Spec2Isabelle
  imports Complex_Main
begin

section \<open>Data model\<close>

text \<open>
  The notebook \<^verbatim>\<open>mdp_demo.ipynb\<close> builds a dice game as a finite Markov decision
  process. Python integers are \<^typ>\<open>int\<close>. A numpy array is a nested list, indexed
  as the source indexes it; its entries are exact rationals: the quotient
  \<^verbatim>\<open>1/n_sides\<close> and every sum and product are the exact ones, so the rounding of
  float64 arithmetic is outside this model. An exception of the source is a value
  of \<open>py_error\<close>, returned as \<open>Inl\<close>.
\<close>

datatype py_error = ValueError | ZeroDivisionError | IndexError

type_synonym vector = "rat list"
type_synonym matrix = "rat list list"
type_synonym tensor = "rat list list list"

text \<open>Action indices, as the source uses them: 0 is "roll", 1 is "stay".\<close>

definition CONTINUE :: nat where
  "CONTINUE = 0"

definition STOP :: nat where
  "STOP = 1"

text \<open>\<^verbatim>\<open>np.zeros(shape=(a, b, c))\<close> and \<^verbatim>\<open>np.zeros(shape=(a, b))\<close>, for dimensions
  already known to be non-negative.\<close>

definition zeros3 :: "nat \<Rightarrow> nat \<Rightarrow> nat \<Rightarrow> tensor" where
  "zeros3 a b c = replicate a (replicate b (replicate c 0))"

definition zeros2 :: "nat \<Rightarrow> nat \<Rightarrow> matrix" where
  "zeros2 a b = replicate a (replicate b 0)"

text \<open>The assignments \<^verbatim>\<open>T[a,s,c] = v\<close> and \<^verbatim>\<open>R[s,a] = v\<close> at indices in range.\<close>

definition set3 :: "tensor \<Rightarrow> nat \<Rightarrow> nat \<Rightarrow> nat \<Rightarrow> rat \<Rightarrow> tensor" where
  "set3 T a s c v = T[a := (T ! a)[s := (T ! a ! s)[c := v]]]"

definition set2 :: "matrix \<Rightarrow> nat \<Rightarrow> nat \<Rightarrow> rat \<Rightarrow> matrix" where
  "set2 R s a v = R[s := (R ! s)[a := v]]"

section \<open>Model builder\<close>

text \<open>
  \<^verbatim>\<open>
  for s in range(0, S-1):
      for sprime in range(s+1, S-1):
          if sprime <= s + n_sides:
              T[0,s,sprime] = p
  \<close>
\<close>

definition roll_inner :: "int \<Rightarrow> rat \<Rightarrow> nat \<Rightarrow> nat \<Rightarrow> tensor \<Rightarrow> tensor" where
  "roll_inner n_sides p S s T =
     fold (\<lambda>sprime T'. if int sprime \<le> int s + n_sides then set3 T' 0 s sprime p else T')
       [s + 1 ..< S - 1] T"

definition roll_fill :: "int \<Rightarrow> rat \<Rightarrow> nat \<Rightarrow> tensor \<Rightarrow> tensor" where
  "roll_fill n_sides p S T = fold (roll_inner n_sides p S) [0 ..< S - 1] T"

text \<open>
  \<^verbatim>\<open>
  for s in range(0, S-1):
      T[0,s,S-1] = 1 - T[0,s].sum()
  \<close>
\<close>

definition bust_fill :: "nat \<Rightarrow> tensor \<Rightarrow> tensor" where
  "bust_fill S T =
     fold (\<lambda>s T'. set3 T' 0 s (S - 1) (1 - sum_list (T' ! 0 ! s))) [0 ..< S - 1] T"

text \<open>\<^verbatim>\<open>T[1,:,S-1] = 1\<close>: the last column of every row of the "stay" matrix.\<close>

definition stay_fill :: "nat \<Rightarrow> tensor \<Rightarrow> tensor" where
  "stay_fill S T = T[1 := map (\<lambda>row. row[S - 1 := 1]) (T ! 1)]"

text \<open>\<^verbatim>\<open>T[T<0] = 0\<close>\<close>

definition clamp_negative :: "tensor \<Rightarrow> tensor" where
  "clamp_negative T = map (map (map (\<lambda>x. if x < 0 then 0 else x))) T"

text \<open>
  The function \<^verbatim>\<open>make_transition_matrix(n_sides, max_score)\<close>. The failures are
  those of the statements in their order: \<^verbatim>\<open>np.zeros\<close> refuses a negative
  dimension, \<^verbatim>\<open>1/n_sides\<close> divides by zero, and \<^verbatim>\<open>T[0,S-1,S-1]\<close> is out of
  bounds on an axis of size 0.
\<close>

definition make_transition_matrix :: "int \<Rightarrow> int \<Rightarrow> py_error + tensor" where
  "make_transition_matrix n_sides max_score =
     (let A = 2; S = max_score + 2 in
      if S < 0 then Inl ValueError
      else if n_sides = 0 then Inl ZeroDivisionError
      else
        let T = zeros3 A (nat S) (nat S);
            p = 1 / of_int n_sides;
            T = roll_fill n_sides p (nat S) T;
            T = bust_fill (nat S) T
        in if S = 0 then Inl IndexError
           else Inr (clamp_negative (stay_fill (nat S) (set3 T 0 (nat S - 1) (nat S - 1) 1))))"

text \<open>
  The function \<^verbatim>\<open>make_reward_matrix(max_score)\<close>:
  \<^verbatim>\<open>
  for s in range(0, S-1):
      R[s,1] = s
  \<close>
\<close>

definition make_reward_matrix :: "int \<Rightarrow> py_error + matrix" where
  "make_reward_matrix max_score =
     (let A = 2; S = max_score + 2 in
      if S < 0 then Inl ValueError
      else Inr (fold (\<lambda>s R. set2 R s 1 (of_nat s)) [0 ..< nat S - 1] (zeros2 (nat S) A)))"

text \<open>The two calls of the notebook that build the model, in their order.\<close>

definition build_model :: "int \<Rightarrow> int \<Rightarrow> py_error + (tensor \<times> matrix)" where
  "build_model n_sides max_score =
     (case make_transition_matrix n_sides max_score of
        Inl e \<Rightarrow> Inl e
      | Inr T \<Rightarrow>
          (case make_reward_matrix max_score of
             Inl e \<Rightarrow> Inl e
           | Inr R \<Rightarrow> Inr (T, R)))"

text \<open>\<^verbatim>\<open>T.shape\<close> of a three-dimensional array with non-empty leading axes.\<close>

definition shape3 :: "tensor \<Rightarrow> nat \<times> nat \<times> nat" where
  "shape3 T = (length T, length (T ! 0), length (T ! 0 ! 0))"

section \<open>State distribution propagator\<close>

text \<open>
  Indexing a numpy axis with a Python integer: a negative index counts from the end,
  an index outside the axis raises \<^verbatim>\<open>IndexError\<close>.
\<close>

definition np_index :: "'a list \<Rightarrow> int \<Rightarrow> py_error + 'a" where
  "np_index xs i =
     (let n = int (length xs); j = (if i < 0 then i + n else i)
      in if 0 \<le> j \<and> j < n then Inr (xs ! nat j) else Inl IndexError)"

text \<open>The read \<^verbatim>\<open>T[a,s,c]\<close>.\<close>

definition get3 :: "tensor \<Rightarrow> int \<Rightarrow> int \<Rightarrow> int \<Rightarrow> py_error + rat" where
  "get3 T a s c =
     (case np_index T a of
        Inl e \<Rightarrow> Inl e
      | Inr M \<Rightarrow>
          (case np_index M s of
             Inl e \<Rightarrow> Inl e
           | Inr row \<Rightarrow> np_index row c))"

text \<open>A loop whose body may raise: the first failure ends it.\<close>

fun fold_err :: "('a \<Rightarrow> 'b \<Rightarrow> py_error + 'b) \<Rightarrow> 'a list \<Rightarrow> 'b \<Rightarrow> py_error + 'b" where
  "fold_err f [] b = Inr b"
| "fold_err f (x # xs) b = (case f x b of Inl e \<Rightarrow> Inl e | Inr b' \<Rightarrow> fold_err f xs b')"

text \<open>
  \<^verbatim>\<open>
  for s in range(S):
      for sprime in range(S):
          T_[s,sprime] = T[policy[s],s,sprime]
  \<close>
\<close>

definition reduce_policy :: "int list \<Rightarrow> tensor \<Rightarrow> nat \<Rightarrow> py_error + matrix" where
  "reduce_policy policy T S =
     fold_err (\<lambda>s. fold_err (\<lambda>sprime T'.
         case get3 T (policy ! s) (int s) (int sprime) of
           Inl e \<Rightarrow> Inl e
         | Inr v \<Rightarrow> Inr (set2 T' s sprime v)) [0 ..< S])
       [0 ..< S] (zeros2 S S)"

text \<open>
  \<^verbatim>\<open>np.einsum("ji,kj->ki", T, rho[:,:,t-1])\<close>: entry \<open>(k, i)\<close> is the sum over \<open>j\<close>
  of \<open>T[j,i] * rho[k,j,t-1]\<close>.
\<close>

definition einsum_step :: "nat \<Rightarrow> matrix \<Rightarrow> tensor \<Rightarrow> nat \<Rightarrow> matrix" where
  "einsum_step S T' rho t =
     map (\<lambda>k. map (\<lambda>i. \<Sum>j\<leftarrow>[0 ..< S]. T' ! j ! i * rho ! k ! j ! (t - 1)) [0 ..< S]) [0 ..< S]"

text \<open>The slice assignment \<^verbatim>\<open>rho[:,:,t] = new\<close>.\<close>

definition assign_slice :: "nat \<Rightarrow> tensor \<Rightarrow> nat \<Rightarrow> matrix \<Rightarrow> tensor" where
  "assign_slice S rho t new =
     map (\<lambda>k. map (\<lambda>i. (rho ! k ! i)[t := new ! k ! i]) [0 ..< S]) [0 ..< S]"

text \<open>
  The function \<^verbatim>\<open>calculate_state_distribution(policy, T, t_max)\<close>. The array
  \<^verbatim>\<open>rho\<close> has shape \<open>(S, S, t_max+1)\<close>: \<^verbatim>\<open>np.zeros\<close> refuses \<open>t_max < -1\<close>, and
  with \<open>t_max = -1\<close> the assignment \<^verbatim>\<open>rho[s,s,0] = 1\<close> is out of bounds.
\<close>

definition calculate_state_distribution :: "int list \<Rightarrow> tensor \<Rightarrow> int \<Rightarrow> py_error + tensor" where
  "calculate_state_distribution policy T t_max =
     (let S = length policy in
      case reduce_policy policy T S of
        Inl e \<Rightarrow> Inl e
      | Inr T' \<Rightarrow>
          if t_max + 1 < 0 then Inl ValueError
          else if t_max + 1 = 0 \<and> 0 < S then Inl IndexError
          else
            let rho = zeros3 S S (nat (t_max + 1));
                rho = fold (\<lambda>s rho'. set3 rho' s s 0 1) [0 ..< S] rho
            in Inr (fold (\<lambda>t rho'. assign_slice S rho' t (einsum_step S T' rho' t))
                      [1 ..< nat (t_max + 1)] rho))"

text \<open>
  The recurrence of the specification, in its words: the fixed-policy transition
  matrix \<open>T_pi(s,s') = T[policy(s), s, s']\<close>, the base case
  \<open>rho(s0, s, 0) = 1 if s = s0 else 0\<close>, and
  \<open>rho(s0, s, t) = \<Sum>s'. T_pi(s', s) * rho(s0, s', t-1)\<close>.
\<close>

definition T_pi :: "int list \<Rightarrow> tensor \<Rightarrow> nat \<Rightarrow> nat \<Rightarrow> rat" where
  "T_pi policy T s s' = T ! nat (policy ! s) ! s ! s'"

fun rho_spec :: "(nat \<Rightarrow> nat \<Rightarrow> rat) \<Rightarrow> nat \<Rightarrow> nat \<Rightarrow> nat \<Rightarrow> nat \<Rightarrow> rat" where
  "rho_spec Tp S s0 s 0 = (if s = s0 then 1 else 0)"
| "rho_spec Tp S s0 s (Suc t) = (\<Sum>s'\<leftarrow>[0 ..< S]. Tp s' s * rho_spec Tp S s0 s' t)"


text \<open>
  The inputs the propagator is meant for: a tensor of shape \<open>(A, S, C)\<close>, and a policy
  whose entries are action indices \<open>0 \<le> a < A\<close>.
\<close>

definition has_shape3 :: "nat \<Rightarrow> nat \<Rightarrow> nat \<Rightarrow> tensor \<Rightarrow> bool" where
  "has_shape3 A S C T \<longleftrightarrow>
     length T = A \<and> list_all (\<lambda>M. length M = S \<and> list_all (\<lambda>row. length row = C) M) T"

definition policy_in_range :: "nat \<Rightarrow> int list \<Rightarrow> bool" where
  "policy_in_range A policy \<longleftrightarrow> list_all (\<lambda>a. 0 \<le> a \<and> a < int A) policy"

section \<open>Value iteration solver\<close>

text \<open>
  Modelled from the spec: the solver \<^verbatim>\<open>mdp.ValueIteration\<close> that the notebook
  calls is imported from the package \<^verbatim>\<open>mdptoolbox\<close>; its code is not part of the
  notebook. Every definition of this section follows the solver component of the
  specification, with the contract \<open>solve(T, R, discount, epsilon, max_iter)\<close>
  returning \<open>(V, policy, iterations, converged)\<close>. The two errors are those the
  specification gives the solver.
\<close>

datatype solver_error = InvalidModel | InvalidParameter

text \<open>
  Modelled from the spec: \<open>Q(s,a) = R(s,a) + discount * \<Sum>s'. T(a,s,s') * V(s')\<close>.
\<close>

definition q_value :: "tensor \<Rightarrow> matrix \<Rightarrow> rat \<Rightarrow> vector \<Rightarrow> nat \<Rightarrow> nat \<Rightarrow> rat" where
  "q_value T R discount V s a =
     R ! s ! a + discount * (\<Sum>s'\<leftarrow>[0 ..< length V]. T ! a ! s ! s' * V ! s')"

text \<open>
  Modelled from the spec: \<open>argmax_a Q(s,a)\<close>, "prefer the lower-indexed action": a
  later action replaces the best one only when its value is strictly larger.
\<close>

definition argmax :: "rat list \<Rightarrow> nat" where
  "argmax qs = fold (\<lambda>a best. if qs ! best < qs ! a then a else best) [0 ..< length qs] 0"

text \<open>
  Modelled from the spec: one iteration computes, for every state \<open>s\<close>,
  \<open>V(s) = max_a Q(s,a)\<close> and \<open>\<pi>(s) = argmax_a Q(s,a)\<close> from the previous \<open>V\<close>.
\<close>

definition bellman :: "tensor \<Rightarrow> matrix \<Rightarrow> rat \<Rightarrow> vector \<Rightarrow> vector \<times> nat list" where
  "bellman T R discount V =
     (let Q = map (\<lambda>s. map (q_value T R discount V s) [0 ..< length T]) [0 ..< length V]
      in (map (\<lambda>qs. Max (set qs)) Q, map argmax Q))"

text \<open>
  Modelled from the spec: stop when the span \<open>max(V\<^sub>k - V\<^sub>k\<^sub>-\<^sub>1) - min(V\<^sub>k - V\<^sub>k\<^sub>-\<^sub>1)\<close> is at
  most \<open>epsilon * (1 - discount) / discount\<close> for \<open>discount < 1\<close>, or when the maximal
  absolute change is at most \<open>epsilon\<close> for \<open>discount = 1\<close>.
\<close>

definition converged_test :: "rat \<Rightarrow> rat \<Rightarrow> vector \<Rightarrow> vector \<Rightarrow> bool" where
  "converged_test discount epsilon V' V =
     (let d = map2 (-) V' V in
      if discount < 1 then Max (set d) - Min (set d) \<le> epsilon * (1 - discount) / discount
      else Max (set (map abs d)) \<le> epsilon)"

text \<open>
  Modelled from the spec: the solver returns when converged, or when \<open>max_iter\<close> is
  reached, then with \<open>converged = false\<close> and the current estimate. Each call makes one
  sweep and then the test; \<open>fuel\<close> counts the sweeps that may still follow this one,
  and \<open>k\<close> the sweeps already made.
\<close>

fun vi_loop :: "tensor \<Rightarrow> matrix \<Rightarrow> rat \<Rightarrow> rat \<Rightarrow> nat \<Rightarrow> nat \<Rightarrow> vector
    \<Rightarrow> vector \<times> nat list \<times> nat \<times> bool" where
  "vi_loop T R discount epsilon fuel k V =
     (case bellman T R discount V of
        (V', pol) \<Rightarrow>
          if converged_test discount epsilon V' V then (V', pol, k + 1, True)
          else (case fuel of
                  0 \<Rightarrow> (V', pol, k + 1, False)
                | Suc fuel' \<Rightarrow> vi_loop T R discount epsilon fuel' (k + 1) V'))"

text \<open>
  Modelled from the spec: the solver fails with \<open>InvalidModel\<close> "when T's rows do not
  sum to 1 within tolerance, or when T/R shapes are inconsistent". The model is valid
  when \<open>T\<close> has shape \<open>(A, S, S)\<close> and \<open>R\<close> has shape \<open>(S, A)\<close>, with at least one
  action and one state, and every row of \<open>T\<close> sums to 1 within \<open>10\<^sup>-\<^sup>9\<close>, the tolerance
  of the specification's row-sum property.
\<close>

definition valid_model :: "tensor \<Rightarrow> matrix \<Rightarrow> bool" where
  "valid_model T R \<longleftrightarrow>
     0 < length T \<and> 0 < length R \<and>
     list_all (\<lambda>r. length r = length T) R \<and>
     list_all (\<lambda>M. length M = length R \<and>
       list_all (\<lambda>row. length row = length R \<and> \<bar>sum_list row - 1\<bar> \<le> 1 / 10 ^ 9) M) T"

text \<open>
  Modelled from the spec: the solver fails with \<open>InvalidParameter\<close> "when discount is
  outside (0,1], epsilon \<le> 0, or max_iter \<le> 0"; otherwise it starts from
  \<open>V\<^sub>0(s) = 0\<close> for all \<open>s\<close> and iterates. With \<open>max_iter > 0\<close> at least one sweep is
  made, so the policy returned is always that of a sweep.
\<close>

definition solve :: "tensor \<Rightarrow> matrix \<Rightarrow> rat \<Rightarrow> rat \<Rightarrow> int
    \<Rightarrow> solver_error + (vector \<times> nat list \<times> nat \<times> bool)" where
  "solve T R discount epsilon max_iter =
     (if \<not> valid_model T R then Inl InvalidModel
      else if \<not> (0 < discount \<and> discount \<le> 1) \<or> epsilon \<le> 0 \<or> max_iter \<le> 0
        then Inl InvalidParameter
      else Inr (vi_loop T R discount epsilon (nat max_iter - 1) 0 (replicate (length R) 0)))"

section \<open>Closed forms used in the proofs\<close>

text \<open>
  An array built by tabulating a function of its indices. Every loop of the source
  that fills an array is shown to produce such a tabulation.
\<close>

definition tab3 :: "nat \<Rightarrow> nat \<Rightarrow> nat \<Rightarrow> (nat \<Rightarrow> nat \<Rightarrow> nat \<Rightarrow> rat) \<Rightarrow> tensor" where
  "tab3 A S C f = map (\<lambda>a. map (\<lambda>s. map (\<lambda>c. f a s c) [0 ..< C]) [0 ..< S]) [0 ..< A]"

definition tab2 :: "nat \<Rightarrow> nat \<Rightarrow> (nat \<Rightarrow> nat \<Rightarrow> rat) \<Rightarrow> matrix" where
  "tab2 S A f = map (\<lambda>s. map (\<lambda>a. f s a) [0 ..< A]) [0 ..< S]"

text \<open>The entries of the transition tensor for a die with \<open>n > 0\<close> sides and \<open>S\<close> states.\<close>

definition trans_entry :: "int \<Rightarrow> nat \<Rightarrow> nat \<Rightarrow> nat \<Rightarrow> nat \<Rightarrow> rat" where
  "trans_entry n S a s c =
     (if a = 1 \<or> s = S - 1 then (if c = S - 1 then 1 else 0)
      else if c = S - 1 then 1 - of_nat (min (S - 2 - s) (nat n)) / of_int n
      else if s < c \<and> int c \<le> int s + n then 1 / of_int n else 0)"

text \<open>
  The model of the notebook's example, \<open>n_sides = 20\<close> and \<open>max_score = 21\<close>, written
  out: the two arrays that the builder returns for these arguments.
\<close>

definition example_T :: tensor where
  "example_T =
    [[[0, 1 / 20, 1 / 20, 1 / 20, 1 / 20, 1 / 20, 1 / 20, 1 / 20, 1 / 20, 1 / 20, 1 / 20, 1 / 20, 1 / 20, 1 / 20, 1 / 20, 1 / 20, 1 / 20, 1 / 20, 1 / 20, 1 / 20, 1 / 20, 0, 0],
      [0, 0, 1 / 20, 1 / 20, 1 / 20, 1 / 20, 1 / 20, 1 / 20, 1 / 20, 1 / 20, 1 / 20, 1 / 20, 1 / 20, 1 / 20, 1 / 20, 1 / 20, 1 / 20, 1 / 20, 1 / 20, 1 / 20, 1 / 20, 1 / 20, 0],
      [0, 0, 0, 1 / 20, 1 / 20, 1 / 20, 1 / 20, 1 / 20, 1 / 20, 1 / 20, 1 / 20, 1 / 20, 1 / 20, 1 / 20, 1 / 20, 1 / 20, 1 / 20, 1 / 20, 1 / 20, 1 / 20, 1 / 20, 1 / 20, 1 / 20],
      [0, 0, 0, 0, 1 / 20, 1 / 20, 1 / 20, 1 / 20, 1 / 20, 1 / 20, 1 / 20, 1 / 20, 1 / 20, 1 / 20, 1 / 20, 1 / 20, 1 / 20, 1 / 20, 1 / 20, 1 / 20, 1 / 20, 1 / 20, 1 / 10],
      [0, 0, 0, 0, 0, 1 / 20, 1 / 20, 1 / 20, 1 / 20, 1 / 20, 1 / 20, 1 / 20, 1 / 20, 1 / 20, 1 / 20, 1 / 20, 1 / 20, 1 / 20, 1 / 20, 1 / 20, 1 / 20, 1 / 20, 3 / 20],
      [0, 0, 0, 0, 0, 0, 1 / 20, 1 / 20, 1 / 20, 1 / 20, 1 / 20, 1 / 20, 1 / 20, 1 / 20, 1 / 20, 1 / 20, 1 / 20, 1 / 20, 1 / 20, 1 / 20, 1 / 20, 1 / 20, 1 / 5],
      [0, 0, 0, 0, 0, 0, 0, 1 / 20, 1 / 20, 1 / 20, 1 / 20, 1 / 20, 1 / 20, 1 / 20, 1 / 20, 1 / 20, 1 / 20, 1 / 20, 1 / 20, 1 / 20, 1 / 20, 1 / 20, 1 / 4],
      [0, 0, 0, 0, 0, 0, 0, 0, 1 / 20, 1 / 20, 1 / 20, 1 / 20, 1 / 20, 1 / 20, 1 / 20, 1 / 20, 1 / 20, 1 / 20, 1 / 20, 1 / 20, 1 / 20, 1 / 20, 3 / 10],
      [0, 0, 0, 0, 0, 0, 0, 0, 0, 1 / 20, 1 / 20, 1 / 20, 1 / 20, 1 / 20, 1 / 20, 1 / 20, 1 / 20, 1 / 20, 1 / 20, 1 / 20, 1 / 20, 1 / 20, 7 / 20],
      [0, 0, 0, 0, 0, 0, 0, 0, 0, 0, 1 / 20, 1 / 20, 1 / 20, 1 / 20, 1 / 20, 1 / 20, 1 / 20, 1 / 20, 1 / 20, 1 / 20, 1 / 20, 1 / 20, 2 / 5],
      [0, 0, 0, 0, 0, 0, 0, 0, 0, 0, 0, 1 / 20, 1 / 20, 1 / 20, 1 / 20, 1 / 20, 1 / 20, 1 / 20, 1 / 20, 1 / 20, 1 / 20, 1 / 20, 9 / 20],
      [0, 0, 0, 0, 0, 0, 0, 0, 0, 0, 0, 0, 1 / 20, 1 / 20, 1 / 20, 1 / 20, 1 / 20, 1 / 20, 1 / 20, 1 / 20, 1 / 20, 1 / 20, 1 / 2],
      [0, 0, 0, 0, 0, 0, 0, 0, 0, 0, 0, 0, 0, 1 / 20, 1 / 20, 1 / 20, 1 / 20, 1 / 20, 1 / 20, 1 / 20, 1 / 20, 1 / 20, 11 / 20],
      [0, 0, 0, 0, 0, 0, 0, 0, 0, 0, 0, 0, 0, 0, 1 / 20, 1 / 20, 1 / 20, 1 / 20, 1 / 20, 1 / 20, 1 / 20, 1 / 20, 3 / 5],
      [0, 0, 0, 0, 0, 0, 0, 0, 0, 0, 0, 0, 0, 0, 0, 1 / 20, 1 / 20, 1 / 20, 1 / 20, 1 / 20, 1 / 20, 1 / 20, 13 / 20],
      [0, 0, 0, 0, 0, 0, 0, 0, 0, 0, 0, 0, 0, 0, 0, 0, 1 / 20, 1 / 20, 1 / 20, 1 / 20, 1 / 20, 1 / 20, 7 / 10],
      [0, 0, 0, 0, 0, 0, 0, 0, 0, 0, 0, 0, 0, 0, 0, 0, 0, 1 / 20, 1 / 20, 1 / 20, 1 / 20, 1 / 20, 3 / 4],
      [0, 0, 0, 0, 0, 0, 0, 0, 0, 0, 0, 0, 0, 0, 0, 0, 0, 0, 1 / 20, 1 / 20, 1 / 20, 1 / 20, 4 / 5],
      [0, 0, 0, 0, 0, 0, 0, 0, 0, 0, 0, 0, 0, 0, 0, 0, 0, 0, 0, 1 / 20, 1 / 20, 1 / 20, 17 / 20],
      [0, 0, 0, 0, 0, 0, 0, 0, 0, 0, 0, 0, 0, 0, 0, 0, 0, 0, 0, 0, 1 / 20, 1 / 20, 9 / 10],
      [0, 0, 0, 0, 0, 0, 0, 0, 0, 0, 0, 0, 0, 0, 0, 0, 0, 0, 0, 0, 0, 1 / 20, 19 / 20],
      [0, 0, 0, 0, 0, 0, 0, 0, 0, 0, 0, 0, 0, 0, 0, 0, 0, 0, 0, 0, 0, 0, 1],
      [0, 0, 0, 0, 0, 0, 0, 0, 0, 0, 0, 0, 0, 0, 0, 0, 0, 0, 0, 0, 0, 0, 1]],
     [[0, 0, 0, 0, 0, 0, 0, 0, 0, 0, 0, 0, 0, 0, 0, 0, 0, 0, 0, 0, 0, 0, 1],
      [0, 0, 0, 0, 0, 0, 0, 0, 0, 0, 0, 0, 0, 0, 0, 0, 0, 0, 0, 0, 0, 0, 1],
      [0, 0, 0, 0, 0, 0, 0, 0, 0, 0, 0, 0, 0, 0, 0, 0, 0, 0, 0, 0, 0, 0, 1],
      [0, 0, 0, 0, 0, 0, 0, 0, 0, 0, 0, 0, 0, 0, 0, 0, 0, 0, 0, 0, 0, 0, 1],
      [0, 0, 0, 0, 0, 0, 0, 0, 0, 0, 0, 0, 0, 0, 0, 0, 0, 0, 0, 0, 0, 0, 1],
      [0, 0, 0, 0, 0, 0, 0, 0, 0, 0, 0, 0, 0, 0, 0, 0, 0, 0, 0, 0, 0, 0, 1],
      [0, 0, 0, 0, 0, 0, 0, 0, 0, 0, 0, 0, 0, 0, 0, 0, 0, 0, 0, 0, 0, 0, 1],
      [0, 0, 0, 0, 0, 0, 0, 0, 0, 0, 0, 0, 0, 0, 0, 0, 0, 0, 0, 0, 0, 0, 1],
      [0, 0, 0, 0, 0, 0, 0, 0, 0, 0, 0, 0, 0, 0, 0, 0, 0, 0, 0, 0, 0, 0, 1],
      [0, 0, 0, 0, 0, 0, 0, 0, 0, 0, 0, 0, 0, 0, 0, 0, 0, 0, 0, 0, 0, 0, 1],
      [0, 0, 0, 0, 0, 0, 0, 0, 0, 0, 0, 0, 0, 0, 0, 0, 0, 0, 0, 0, 0, 0, 1],
      [0, 0, 0, 0, 0, 0, 0, 0, 0, 0, 0, 0, 0, 0, 0, 0, 0, 0, 0, 0, 0, 0, 1],
      [0, 0, 0, 0, 0, 0, 0, 0, 0, 0, 0, 0, 0, 0, 0, 0, 0, 0, 0, 0, 0, 0, 1],
      [0, 0, 0, 0, 0, 0, 0, 0, 0, 0, 0, 0, 0, 0, 0, 0, 0, 0, 0, 0, 0, 0, 1],
      [0, 0, 0, 0, 0, 0, 0, 0, 0, 0, 0, 0, 0, 0, 0, 0, 0, 0, 0, 0, 0, 0, 1],
      [0, 0, 0, 0, 0, 0, 0, 0, 0, 0, 0, 0, 0, 0, 0, 0, 0, 0, 0, 0, 0, 0, 1],
      [0, 0, 0, 0, 0, 0, 0, 0, 0, 0, 0, 0, 0, 0, 0, 0, 0, 0, 0, 0, 0, 0, 1],
      [0, 0, 0, 0, 0, 0, 0, 0, 0, 0, 0, 0, 0, 0, 0, 0, 0, 0, 0, 0, 0, 0, 1],
      [0, 0, 0, 0, 0, 0, 0, 0, 0, 0, 0, 0, 0, 0, 0, 0, 0, 0, 0, 0, 0, 0, 1],
      [0, 0, 0, 0, 0, 0, 0, 0, 0, 0, 0, 0, 0, 0, 0, 0, 0, 0, 0, 0, 0, 0, 1],
      [0, 0, 0, 0, 0, 0, 0, 0, 0, 0, 0, 0, 0, 0, 0, 0, 0, 0, 0, 0, 0, 0, 1],
      [0, 0, 0, 0, 0, 0, 0, 0, 0, 0, 0, 0, 0, 0, 0, 0, 0, 0, 0, 0, 0, 0, 1],
      [0, 0, 0, 0, 0, 0, 0, 0, 0, 0, 0, 0, 0, 0, 0, 0, 0, 0, 0, 0, 0, 0, 1]]]"

definition example_R :: matrix where
  "example_R =
 [[0, 0],
  [0, 1],
  [0, 2],
  [0, 3],
  [0, 4],
  [0, 5],
  [0, 6],
  [0, 7],
  [0, 8],
  [0, 9],
  [0, 10],
  [0, 11],
  [0, 12],
  [0, 13],
  [0, 14],
  [0, 15],
  [0, 16],
  [0, 17],
  [0, 18],
  [0, 19],
  [0, 20],
  [0, 21],
  [0, 0]]"

text \<open>
  One state of a sweep over a model with two actions: the value \<open>max (q0, q1)\<close> and the
  action of the larger \<open>q\<close>, the lower index on a tie.
\<close>

definition sweep_state :: "rat \<Rightarrow> vector \<Rightarrow> vector \<times> vector \<times> vector \<Rightarrow> rat \<times> nat" where
  "sweep_state d V x =
     (case x of (row0, row1, r) \<Rightarrow>
        let q0 = r ! 0 + d * sum_list (map2 (*) row0 V);
            q1 = r ! 1 + d * sum_list (map2 (*) row1 V)
        in (max q0 q1, if q0 < q1 then 1 else 0))"

text \<open>The value function and the policy after \<open>k\<close> sweeps from the zero vector.\<close>

fun vi_iterate :: "tensor \<Rightarrow> matrix \<Rightarrow> rat \<Rightarrow> nat \<Rightarrow> vector \<times> nat list" where
  "vi_iterate T R d 0 = (replicate (length R) 0, [])"
| "vi_iterate T R d (Suc k) = bellman T R d (fst (vi_iterate T R d k))"

section \<open>Tabulations\<close>

lemma tab3_nth: "a < A \<Longrightarrow> s < S \<Longrightarrow> c < C \<Longrightarrow> tab3 A S C f ! a ! s ! c = f a s c"
  by (simp add: tab3_def)

lemma tab3_length: "length (tab3 A S C f) = A"
  "a < A \<Longrightarrow> length (tab3 A S C f ! a) = S"
  "a < A \<Longrightarrow> s < S \<Longrightarrow> length (tab3 A S C f ! a ! s) = C"
  by (simp_all add: tab3_def)

lemma tab3_cong:
  "(\<And>a s c. a < A \<Longrightarrow> s < S \<Longrightarrow> c < C \<Longrightarrow> f a s c = g a s c) \<Longrightarrow> tab3 A S C f = tab3 A S C g"
  by (simp add: tab3_def)

lemma zeros3_tab3: "zeros3 A S C = tab3 A S C (\<lambda>a s c. 0)"
  by (simp add: zeros3_def tab3_def map_replicate_const)

lemma tab3_row: "a < A \<Longrightarrow> s < S \<Longrightarrow> tab3 A S C f ! a ! s = map (f a s) [0 ..< C]"
  by (simp add: tab3_def)

lemma map_upt_update:
  "(map g [0 ..< n])[i := v] = map (\<lambda>j. if j = i then v else g j) [0 ..< n]"
  by (rule nth_equalityI) (auto simp: nth_list_update)

lemma set3_tab3:
  assumes "a < A" "s < S" "c < C"
  shows "set3 (tab3 A S C f) a s c v =
         tab3 A S C (\<lambda>a' s' c'. if a' = a \<and> s' = s \<and> c' = c then v else f a' s' c')"
proof -
  have row: "tab3 A S C f ! a ! s = map (f a s) [0 ..< C]"
    using assms by (simp add: tab3_def)
  have mat: "tab3 A S C f ! a = map (\<lambda>s. map (f a s) [0 ..< C]) [0 ..< S]"
    using assms by (simp add: tab3_def)
  show ?thesis
    unfolding set3_def row mat map_upt_update
    unfolding tab3_def map_upt_update
    by (auto intro!: nth_equalityI)
qed

lemma roll_inner_fold_tab3:
  assumes "s < S" "hi \<le> S"
  shows "fold (\<lambda>sprime T'. if int sprime \<le> int s + n then set3 T' 0 s sprime p else T')
           [lo ..< hi] (tab3 2 S S f) =
         tab3 2 S S (\<lambda>a r c. if a = 0 \<and> r = s \<and> lo \<le> c \<and> c < hi \<and> int c \<le> int s + n
                               then p else f a r c)"
  using assms(2)
proof (induction hi)
  case 0
  then show ?case by simp
next
  case (Suc hi)
  show ?case
  proof (cases "lo \<le> hi")
    case True
    then have "[lo ..< Suc hi] = [lo ..< hi] @ [hi]" by simp
    moreover have "hi < S" "hi \<le> S" using Suc.prems by simp_all
    ultimately show ?thesis
      using Suc.IH assms(1)
      by (auto simp: set3_tab3 intro!: tab3_cong)
  next
    case False
    then show ?thesis by (auto intro!: tab3_cong)
  qed
qed

lemma roll_inner_tab3:
  assumes "s < S"
  shows "roll_inner n p S s (tab3 2 S S f) =
         tab3 2 S S (\<lambda>a r c. if a = 0 \<and> r = s \<and> s < c \<and> c < S - 1 \<and> int c \<le> int s + n
                               then p else f a r c)"
  unfolding roll_inner_def
  using roll_inner_fold_tab3 [OF assms, of "S - 1" n p "s + 1" f]
  by (auto intro!: tab3_cong)

lemma roll_fill_fold_tab3:
  assumes "k \<le> S - 1"
  shows "fold (roll_inner n p S) [0 ..< k] (tab3 2 S S f) =
         tab3 2 S S (\<lambda>a r c. if a = 0 \<and> r < k \<and> r < c \<and> c < S - 1 \<and> int c \<le> int r + n
                               then p else f a r c)"
  using assms
proof (induction k)
  case 0
  then show ?case by simp
next
  case (Suc k)
  then have "k < S" "k \<le> S - 1" by simp_all
  then show ?case
    using Suc.IH by (auto simp: roll_inner_tab3 intro!: tab3_cong)
qed

lemma roll_fill_tab3:
  "roll_fill n p S (tab3 2 S S f) =
   tab3 2 S S (\<lambda>a r c. if a = 0 \<and> r < c \<and> c < S - 1 \<and> int c \<le> int r + n
                          then p else f a r c)"
  unfolding roll_fill_def
  using roll_fill_fold_tab3 [of "S - 1" S n p f]
  by (auto intro!: tab3_cong)

lemma sum_list_tab3_row:
  "a < A \<Longrightarrow> s < S \<Longrightarrow> sum_list (tab3 A S C f ! a ! s) = (\<Sum>c<C. f a s c)"
  by (simp add: tab3_row interv_sum_list_conv_sum_set_nat atLeast0LessThan)

lemma bust_fill_fold_tab3:
  assumes "k \<le> S - 1"
  shows "fold (\<lambda>s T'. set3 T' 0 s (S - 1) (1 - sum_list (T' ! 0 ! s))) [0 ..< k] (tab3 2 S S f) =
         tab3 2 S S (\<lambda>a r c. if a = 0 \<and> r < k \<and> c = S - 1
                               then 1 - (\<Sum>j<S. f 0 r j) else f a r c)"
  using assms
proof (induction k)
  case 0
  then show ?case by simp
next
  case (Suc k)
  then have "k < S" "k \<le> S - 1" "S - 1 < S" by simp_all
  then show ?case
    using Suc.IH by (auto simp: set3_tab3 sum_list_tab3_row intro!: tab3_cong)
qed

lemma bust_fill_tab3:
  "bust_fill S (tab3 2 S S f) =
   tab3 2 S S (\<lambda>a r c. if a = 0 \<and> r < S - 1 \<and> c = S - 1
                          then 1 - (\<Sum>j<S. f 0 r j) else f a r c)"
  unfolding bust_fill_def using bust_fill_fold_tab3 [of "S - 1" S f] by simp

lemma stay_fill_tab3:
  "stay_fill S (tab3 2 S S f) =
   tab3 2 S S (\<lambda>a r c. if a = 1 \<and> c = S - 1 then 1 else f a r c)"
  unfolding stay_fill_def tab3_def
  by (auto intro!: nth_equalityI simp: nth_list_update)

lemma clamp_negative_tab3:
  "clamp_negative (tab3 A S C f) = tab3 A S C (\<lambda>a r c. if f a r c < 0 then 0 else f a r c)"
  by (simp add: clamp_negative_def tab3_def)

section \<open>The loops of the model builder\<close>

lemma roll_row_sum:
  assumes "0 \<le> n" "r < S - 1"
  shows "(\<Sum>j<S. if r < j \<and> j < S - 1 \<and> int j \<le> int r + n then p else 0) =
         of_nat (min (S - 2 - r) (nat n)) * (p::rat)"
proof -
  have "{j \<in> {..<S}. r < j \<and> j < S - 1 \<and> int j \<le> int r + n} =
        {r + 1 ..< min (S - 1) (r + nat n + 1)}"
    using assms by auto
  moreover have "card {r + 1 ..< min (S - 1) (r + nat n + 1)} = min (S - 2 - r) (nat n)"
    using assms by auto
  ultimately show ?thesis
    by (simp add: sum.inter_filter [symmetric])
qed

lemma min_div_le_1:
  assumes "0 < n"
  shows "of_nat (min k (nat n)) / (of_int n :: rat) \<le> 1"
proof -
  have "(of_nat (min k (nat n)) :: rat) \<le> of_nat (nat n)"
    unfolding of_nat_le_iff by simp
  also have "(of_nat (nat n) :: rat) = of_int n"
    using assms by simp
  finally show ?thesis using assms by simp
qed

lemma trans_entry_nonneg:
  assumes "0 < n"
  shows "0 \<le> trans_entry n S a s c"
  using min_div_le_1 [OF assms, of "S - 2 - s"] assms
  by (simp add: trans_entry_def)


lemma make_transition_matrix_tab3:
  assumes "0 < n" "- 1 \<le> m"
  shows "make_transition_matrix n m =
         Inr (tab3 2 (nat (m + 2)) (nat (m + 2)) (trans_entry n (nat (m + 2))))"
proof -
  define S where "S = nat (m + 2)"
  have S: "0 < S" "S - 1 < S" "nat (m + 2) = S" using assms by (simp_all add: S_def)
  have m: "\<not> m + 2 < 0" "m + 2 \<noteq> 0" "n \<noteq> 0" using assms by simp_all
  have sums: "\<And>r. r < S - 1 \<Longrightarrow>
      (\<Sum>j<S. if r < j \<and> j < S - 1 \<and> int j \<le> int r + n then 1 / of_int n else 0) =
      of_nat (min (S - 2 - r) (nat n)) * (1 / (of_int n :: rat))"
    by (rule roll_row_sum) (use assms in simp_all)
  have entry: "(if a = 1 \<and> c = S - 1 then 1
             else if a = 0 \<and> s = S - 1 \<and> c = S - 1 then 1
             else if a = 0 \<and> s < S - 1 \<and> c = S - 1
               then 1 - (\<Sum>c<S. if (0::nat) = 0 \<and> s < c \<and> c < S - 1 \<and> int c \<le> int s + n
                                 then 1 / rat_of_int n else 0)
               else if a = 0 \<and> s < c \<and> c < S - 1 \<and> int c \<le> int s + n
                 then 1 / rat_of_int n else 0) = trans_entry n S a s c"
    if "a < 2" "s < S" "c < S" for a s c
  proof -
    have a: "a = 0 \<or> a = 1" using that by linarith
    have s: "s = S - 1 \<or> s < S - 1" using that by linarith
    have c: "c = S - 1 \<or> c < S - 1" using that by linarith
    consider "a = 1" | "a = 0" "s = S - 1" | "a = 0" "s < S - 1" "c = S - 1"
      | "a = 0" "s < S - 1" "c < S - 1"
      using a s c by blast
    then show ?thesis
    proof cases
      case 1
      then show ?thesis by (simp add: trans_entry_def)
    next
      case 2
      then show ?thesis by (simp add: trans_entry_def)
    next
      case 3
      then show ?thesis using sums [of s] by (simp add: trans_entry_def)
    next
      case 4
      then show ?thesis by (simp add: trans_entry_def)
    qed
  qed
  have "make_transition_matrix n m =
        Inr (clamp_negative (stay_fill S (set3 (bust_fill S (roll_fill n (1 / of_int n) S
               (zeros3 2 S S))) 0 (S - 1) (S - 1) 1)))"
    using m by (simp add: make_transition_matrix_def Let_def S)
  also have "clamp_negative (stay_fill S (set3 (bust_fill S (roll_fill n (1 / of_int n) S
               (zeros3 2 S S))) 0 (S - 1) (S - 1) 1)) = tab3 2 S S (trans_entry n S)"
    unfolding zeros3_tab3 roll_fill_tab3 bust_fill_tab3
    using S(1,2) apply (simp only: set3_tab3 [OF pos2 S(2) S(2)] stay_fill_tab3 clamp_negative_tab3)
    apply (rule tab3_cong)
    subgoal for a s c
    proof -
      assume *: "a < 2" "s < S" "c < S"
      have "\<not> trans_entry n S a s c < 0"
        using trans_entry_nonneg [OF assms(1), of S a s c] by simp
      then show ?thesis
        by (simp only: entry [OF *] if_False)
    qed
    done
  finally show ?thesis by (simp add: S)
qed

lemma tab2_nth: "s < S \<Longrightarrow> a < A \<Longrightarrow> tab2 S A f ! s ! a = f s a"
  by (simp add: tab2_def)

lemma zeros2_tab2: "zeros2 S A = tab2 S A (\<lambda>s a. 0)"
  by (simp add: zeros2_def tab2_def map_replicate_const)

lemma tab2_cong:
  "(\<And>s a. s < S \<Longrightarrow> a < A \<Longrightarrow> f s a = g s a) \<Longrightarrow> tab2 S A f = tab2 S A g"
  by (simp add: tab2_def)

lemma set2_tab2:
  assumes "s < S"
  shows "set2 (tab2 S A f) s a v =
         tab2 S A (\<lambda>s' a'. if s' = s \<and> a' = a then v else f s' a')"
proof -
  have row: "tab2 S A f ! s = map (f s) [0 ..< A]"
    using assms by (simp add: tab2_def)
  show ?thesis
    unfolding set2_def row map_upt_update
    unfolding tab2_def map_upt_update
    by (auto intro!: nth_equalityI)
qed

lemma reward_fold_tab2:
  assumes "k \<le> S"
  shows "fold (\<lambda>s R. set2 R s 1 (of_nat s)) [0 ..< k] (tab2 S A f) =
         tab2 S A (\<lambda>s a. if s < k \<and> a = 1 then of_nat s else f s a)"
  using assms
proof (induction k)
  case 0
  then show ?case by simp
next
  case (Suc k)
  then have "k < S" "k \<le> S" by simp_all
  then show ?case
    using Suc.IH by (auto simp: set2_tab2 intro!: tab2_cong)
qed

lemma make_reward_matrix_tab2:
  assumes "- 2 \<le> m"
  shows "make_reward_matrix m =
         Inr (tab2 (nat (m + 2)) 2 (\<lambda>s a. if s < nat (m + 2) - 1 \<and> a = 1 then of_nat s else 0))"
  using assms reward_fold_tab2 [of "nat (m + 2) - 1" "nat (m + 2)" 2 "\<lambda>s a. 0"]
  by (simp add: make_reward_matrix_def Let_def zeros2_tab2)


section \<open>Properties of the model builder\<close>

text \<open>
  Claim C5. For positive \<open>n_sides\<close> and \<open>max_score\<close>, the terminal state (index
  \<open>max_score + 1\<close>) of the transition tensor is absorbing under both actions:
  \<open>T[a, terminal, terminal] = 1\<close> for \<open>a = CONTINUE\<close> and \<open>a = STOP\<close>.
\<close>

theorem terminal_absorbing:
  assumes "0 < n_sides" "0 < max_score"
  shows "\<exists>T. make_transition_matrix n_sides max_score = Inr T \<and>
           T ! CONTINUE ! nat (max_score + 1) ! nat (max_score + 1) = 1 \<and>
           T ! STOP ! nat (max_score + 1) ! nat (max_score + 1) = 1"
proof -
  have "nat (max_score + 1) < nat (max_score + 2)" "nat (max_score + 2) - 1 = nat (max_score + 1)"
    using assms by simp_all
  then show ?thesis
    using assms
    by (simp add: make_transition_matrix_tab3 tab3_nth CONTINUE_def STOP_def trans_entry_def)
qed

theorem terminal_absorbing_witness:
  "(0::int) < 4 \<and> (0::int) < 5 \<and>
   (\<exists>T. make_transition_matrix 4 5 = Inr T \<and> T ! CONTINUE ! 6 ! 6 = 1 \<and> T ! STOP ! 6 ! 6 = 1)"
  using terminal_absorbing [of 4 5] by simp

text \<open>
  Claim C7. For positive \<open>n_sides\<close> and \<open>max_score\<close>, the reward matrix has
  \<open>R[s, STOP] = s\<close> for every non-terminal state \<open>0 \<le> s \<le> max_score\<close>,
  \<open>R[terminal, STOP] = 0\<close>, and \<open>R[s, CONTINUE] = 0\<close> for every state, the terminal
  one included.
\<close>

theorem reward_matrix_entries:
  assumes "0 < n_sides" "0 < max_score"
  shows "\<exists>T R. build_model n_sides max_score = Inr (T, R) \<and>
           (\<forall>s. s \<le> nat max_score \<longrightarrow> R ! s ! STOP = of_nat s) \<and>
           R ! nat (max_score + 1) ! STOP = 0 \<and>
           (\<forall>s. s \<le> nat (max_score + 1) \<longrightarrow> R ! s ! CONTINUE = 0)"
proof -
  have "nat (max_score + 1) < nat (max_score + 2)" "nat (max_score + 2) - 1 = nat (max_score + 1)"
    "nat (max_score + 1) = nat max_score + 1"
    using assms by simp_all
  then show ?thesis
    using assms
    by (simp add: build_model_def make_transition_matrix_tab3 make_reward_matrix_tab2 tab2_nth
        CONTINUE_def STOP_def)
qed

theorem reward_matrix_entries_witness:
  "(0::int) < 4 \<and> (0::int) < 2 \<and>
   (\<exists>T R. build_model 4 2 = Inr (T, R) \<and>
     (\<forall>s. s \<le> 2 \<longrightarrow> R ! s ! STOP = of_nat s) \<and> R ! 3 ! STOP = 0 \<and>
     (\<forall>s. s \<le> 3 \<longrightarrow> R ! s ! CONTINUE = 0))"
  using reward_matrix_entries [of 4 2] by simp






lemma small_example_value:
  "make_transition_matrix 4 5 =
     Inr [[[0, 1 / 4, 1 / 4, 1 / 4, 1 / 4, 0, 0],
           [0, 0, 1 / 4, 1 / 4, 1 / 4, 1 / 4, 0],
           [0, 0, 0, 1 / 4, 1 / 4, 1 / 4, 1 / 4],
           [0, 0, 0, 0, 1 / 4, 1 / 4, 1 / 2],
           [0, 0, 0, 0, 0, 1 / 4, 3 / 4],
           [0, 0, 0, 0, 0, 0, 1],
           [0, 0, 0, 0, 0, 0, 1]],
          [[0, 0, 0, 0, 0, 0, 1],
           [0, 0, 0, 0, 0, 0, 1],
           [0, 0, 0, 0, 0, 0, 1],
           [0, 0, 0, 0, 0, 0, 1],
           [0, 0, 0, 0, 0, 0, 1],
           [0, 0, 0, 0, 0, 0, 1],
           [0, 0, 0, 0, 0, 0, 1]]]"
  by code_simp

text \<open>
  Claim C8, as stated, places the small example \<open>n_sides = 4\<close>, \<open>max_score = 5\<close> in a
  space of 6 states with terminal index 5. The tensor has \<open>max_score + 2 = 7\<close> states:
  index 5 is the score 5, from which a roll leads to index 6 with probability 1.
\<close>

theorem small_example_state_space_counterexample:
  "map_sum id shape3 (make_transition_matrix 4 5) = Inr (2, 7, 7) \<and>
   map_sum id shape3 (make_transition_matrix 4 5) \<noteq> Inr (2, 6, 6) \<and>
   get3 (projr (make_transition_matrix 4 5)) 0 5 5 = Inr 0 \<and>
   get3 (projr (make_transition_matrix 4 5)) 0 5 6 = Inr 1"
  unfolding small_example_value
  by (simp add: shape3_def get3_def np_index_def)

text \<open>
  Claim C8, amended. For \<open>n_sides = 4\<close>, \<open>max_score = 5\<close> the row of state 0 under
  \<open>CONTINUE\<close> has \<open>T[0,0,1] = T[0,0,2] = T[0,0,3] = T[0,0,4] = 1/4\<close> and
  \<open>T[0,0,5] = 0\<close>, within a space of 7 states where index 6 is the terminal state
  (and \<open>T[0,0,6] = 0\<close>).
\<close>

theorem small_example_row:
  "\<exists>T. make_transition_matrix 4 5 = Inr T \<and> shape3 T = (2, 7, 7) \<and>
     T ! CONTINUE ! 0 ! 1 = 1 / 4 \<and> T ! CONTINUE ! 0 ! 2 = 1 / 4 \<and>
     T ! CONTINUE ! 0 ! 3 = 1 / 4 \<and> T ! CONTINUE ! 0 ! 4 = 1 / 4 \<and>
     T ! CONTINUE ! 0 ! 5 = 0 \<and> T ! CONTINUE ! 0 ! 6 = 0 \<and>
     T ! CONTINUE ! 6 ! 6 = 1 \<and> T ! STOP ! 6 ! 6 = 1"
  unfolding small_example_value
  by (simp add: shape3_def CONTINUE_def STOP_def)

section \<open>Failures of the model builder\<close>

text \<open>
  Claim C9, as stated, has the builder fail on every input that is not a positive
  integer. With \<open>n_sides = -1\<close> and \<open>max_score = 0\<close> it returns a tensor and a reward
  matrix for two states.
\<close>

theorem build_model_unvalidated_counterexample:
  "build_model (- 1) 0 = Inr ([[[0, 1], [0, 1]], [[0, 1], [0, 1]]], [[0, 0], [0, 0]])"
  by code_simp

lemma make_reward_matrix_returns: "- 2 \<le> m \<Longrightarrow> \<exists>R. make_reward_matrix m = Inr R"
  by (simp add: make_reward_matrix_def Let_def)

lemma make_transition_matrix_returns:
  "- 1 \<le> m \<Longrightarrow> n \<noteq> 0 \<Longrightarrow> \<exists>T. make_transition_matrix n m = Inr T"
  by (simp add: make_transition_matrix_def Let_def)

text \<open>
  Claim C9, amended. The builder returns normally for all positive integers. It
  validates nothing: on the other integers it fails only where a statement of its body
  fails, with \<open>ValueError\<close> when \<open>max_score < -2\<close>, otherwise with
  \<open>ZeroDivisionError\<close> when \<open>n_sides = 0\<close>, otherwise with \<open>IndexError\<close> when
  \<open>max_score = -2\<close>; in every other case it returns a result.
\<close>

theorem build_model_outcome:
  "(0 < n_sides \<and> 0 < max_score \<longrightarrow> (\<exists>T R. build_model n_sides max_score = Inr (T, R))) \<and>
   (max_score < - 2 \<longrightarrow> build_model n_sides max_score = Inl ValueError) \<and>
   (- 2 \<le> max_score \<and> n_sides = 0 \<longrightarrow> build_model n_sides max_score = Inl ZeroDivisionError) \<and>
   (max_score = - 2 \<and> n_sides \<noteq> 0 \<longrightarrow> build_model n_sides max_score = Inl IndexError) \<and>
   (- 1 \<le> max_score \<and> n_sides \<noteq> 0 \<longrightarrow> (\<exists>T R. build_model n_sides max_score = Inr (T, R)))"
proof -
  have ok: "\<exists>T R. build_model n_sides max_score = Inr (T, R)"
    if h: "- 1 \<le> max_score" "n_sides \<noteq> 0"
  proof -
    obtain T where "make_transition_matrix n_sides max_score = Inr T"
      using make_transition_matrix_returns [OF h] by blast
    moreover obtain R where "make_reward_matrix max_score = Inr R"
      using make_reward_matrix_returns [of max_score] h by auto
    ultimately show ?thesis by (simp add: build_model_def)
  qed
  have "build_model n_sides max_score = Inl ValueError" if "max_score < - 2"
    using that by (simp add: build_model_def make_transition_matrix_def Let_def)
  moreover have "build_model n_sides max_score = Inl ZeroDivisionError"
    if "- 2 \<le> max_score" "n_sides = 0"
    using that by (simp add: build_model_def make_transition_matrix_def Let_def)
  moreover have "build_model n_sides max_score = Inl IndexError"
    if "max_score = - 2" "n_sides \<noteq> 0"
    using that by (simp add: build_model_def make_transition_matrix_def Let_def)
  ultimately show ?thesis using ok by auto
qed

theorem build_model_outcome_witness:
  "((0::int) < 4 \<and> (0::int) < 5 \<and> (\<exists>T R. build_model 4 5 = Inr (T, R))) \<and>
   ((- 3::int) < - 2 \<and> build_model 4 (- 3) = Inl ValueError) \<and>
   ((- 2::int) \<le> 5 \<and> build_model 0 5 = Inl ZeroDivisionError) \<and>
   ((4::int) \<noteq> 0 \<and> build_model 4 (- 2) = Inl IndexError) \<and>
   ((- 1::int) \<le> 0 \<and> (- 1::int) \<noteq> 0 \<and> (\<exists>T R. build_model (- 1) 0 = Inr (T, R)))"
  using build_model_outcome [of 4 5] build_model_outcome [of 4 "- 3"]
    build_model_outcome [of 0 5] build_model_outcome [of 4 "- 2"]
    build_model_outcome [of "- 1" 0]
  by simp

section \<open>The loops of the propagator\<close>

lemma has_shape3_lengths:
  assumes "has_shape3 A S C T" "a < A"
  shows "length T = A" "length (T ! a) = S" "s < S \<Longrightarrow> length (T ! a ! s) = C"
proof -
  show A: "length T = A" using assms by (simp add: has_shape3_def)
  have M: "length (T ! a) = S \<and> list_all (\<lambda>row. length row = C) (T ! a)"
    using assms A by (simp add: has_shape3_def list_all_length)
  then show "length (T ! a) = S" by simp
  show "length (T ! a ! s) = C" if "s < S"
    using M that by (simp add: list_all_length)
qed



lemma get3_in_range:
  assumes "has_shape3 A S C T" "0 \<le> a" "a < int A" "s < S" "c < C"
  shows "get3 T a (int s) (int c) = Inr (T ! nat a ! s ! c)"
proof -
  have a: "nat a < A" using assms by simp
  show ?thesis
    using assms has_shape3_lengths [OF assms(1) a]
    by (simp add: get3_def np_index_def)
qed

lemma fold_err_Inr:
  "(\<And>x b. x \<in> set xs \<Longrightarrow> f x b = Inr (g x b)) \<Longrightarrow> fold_err f xs b = Inr (fold g xs b)"
  by (induction xs arbitrary: b) simp_all

lemma reduce_inner_tab2:
  assumes "s < S" "k \<le> S"
  shows "fold (\<lambda>sprime T'. set2 T' s sprime (g s sprime)) [0 ..< k] (tab2 S S f) =
         tab2 S S (\<lambda>r c. if r = s \<and> c < k then g s c else f r c)"
  using assms(2)
proof (induction k)
  case 0
  then show ?case by simp
next
  case (Suc k)
  then have "k \<le> S" by simp
  then show ?case
    using Suc.IH assms(1) by (auto simp: set2_tab2 intro!: tab2_cong)
qed

lemma reduce_outer_tab2:
  assumes "k \<le> S"
  shows "fold (\<lambda>s. fold (\<lambda>sprime T'. set2 T' s sprime (g s sprime)) [0 ..< S]) [0 ..< k] (tab2 S S f) =
         tab2 S S (\<lambda>r c. if r < k then g r c else f r c)"
  using assms
proof (induction k)
  case 0
  then show ?case by simp
next
  case (Suc k)
  then have "k \<le> S" "k < S" by simp_all
  then show ?case
    using Suc.IH by (auto simp: reduce_inner_tab2 intro!: tab2_cong)
qed

lemma reduce_policy_tab2:
  assumes "has_shape3 A (length policy) (length policy) T" "policy_in_range A policy"
  shows "reduce_policy policy T (length policy) =
         Inr (tab2 (length policy) (length policy) (T_pi policy T))"
proof -
  define S where "S = length policy"
  have pol: "0 \<le> policy ! s \<and> policy ! s < int A" if "s < S" for s
    using assms(2) that by (simp add: policy_in_range_def list_all_length S_def)
  have inner: "fold_err (\<lambda>sprime T'.
         case get3 T (policy ! s) (int s) (int sprime) of
           Inl e \<Rightarrow> Inl e
         | Inr v \<Rightarrow> Inr (set2 T' s sprime v)) [0 ..< S] b =
       Inr (fold (\<lambda>sprime T'. set2 T' s sprime (T_pi policy T s sprime)) [0 ..< S] b)"
    if "s < S" for s b
    by (rule fold_err_Inr)
       (use that pol [OF that] assms(1) in \<open>simp add: get3_in_range S_def [symmetric] T_pi_def\<close>)
  have "reduce_policy policy T S =
        Inr (fold (\<lambda>s. fold (\<lambda>sprime T'. set2 T' s sprime (T_pi policy T s sprime)) [0 ..< S])
               [0 ..< S] (zeros2 S S))"
    unfolding reduce_policy_def
    by (rule fold_err_Inr) (simp add: inner)
  then show ?thesis
    unfolding S_def [symmetric]
    by (simp add: zeros2_tab2 reduce_outer_tab2 cong: tab2_cong)
qed

lemma rho_init_tab3:
  assumes "k \<le> S" "0 < N"
  shows "fold (\<lambda>s rho'. set3 rho' s s 0 1) [0 ..< k] (tab3 S S N f) =
         tab3 S S N (\<lambda>s0 s t. if s0 < k \<and> s = s0 \<and> t = 0 then 1 else f s0 s t)"
  using assms(1)
proof (induction k)
  case 0
  then show ?case by simp
next
  case (Suc k)
  then have "k \<le> S" "k < S" by simp_all
  then show ?case
    using Suc.IH assms(2) by (auto simp: set3_tab3 intro!: tab3_cong)
qed

lemma assign_slice_tab3:
  "assign_slice S (tab3 S S N f) t new =
   tab3 S S N (\<lambda>k i u. if u = t then new ! k ! i else f k i u)"
  unfolding assign_slice_def tab3_def
  by (auto intro!: nth_equalityI simp: nth_list_update)

lemma einsum_step_tab:
  assumes "0 < t" "t - 1 < N"
  shows "einsum_step S (tab2 S S g) (tab3 S S N f) t =
         tab2 S S (\<lambda>k i. \<Sum>j\<leftarrow>[0 ..< S]. g j i * f k j (t - 1))"
proof -
  have "(\<Sum>j\<leftarrow>[0 ..< S]. tab2 S S g ! j ! i * tab3 S S N f ! k ! j ! (t - 1)) =
        (\<Sum>j\<leftarrow>[0 ..< S]. g j i * f k j (t - 1))"
    if "k < S" "i < S" for k i
    by (rule arg_cong [where f = sum_list], rule map_cong)
       (use that assms in \<open>simp_all add: tab2_nth tab3_nth\<close>)
  then show ?thesis
    unfolding einsum_step_def by (simp add: tab2_def)
qed

lemma time_loop_tab3:
  assumes "n < N"
  shows "fold (\<lambda>t rho'. assign_slice S rho' t (einsum_step S (tab2 S S g) rho' t)) [1 ..< Suc n]
           (tab3 S S N (\<lambda>s0 s t. if s = s0 \<and> t = 0 then 1 else 0)) =
         tab3 S S N (\<lambda>s0 s t. if t \<le> n then rho_spec g S s0 s t else 0)"
  using assms
proof (induction n)
  case 0
  show ?case by (auto intro!: tab3_cong)
next
  case (Suc n)
  then have n: "n < N" "Suc n - 1 < N" "0 < Suc n" by simp_all
  have upt: "[1 ..< Suc (Suc n)] = [1 ..< Suc n] @ [Suc n]" by simp
  show ?case
    unfolding upt fold_append comp_apply Suc.IH [OF n(1)]
    apply (simp only: fold.simps comp_apply id_apply einsum_step_tab [OF n(3,2)] assign_slice_tab3)
    apply (rule tab3_cong)
    apply (auto simp: tab2_nth le_Suc_eq cong: map_cong)
    done
qed

lemma calculate_state_distribution_tab3:
  assumes "has_shape3 A (length policy) (length policy) T" "policy_in_range A policy" "0 \<le> t_max"
  shows "calculate_state_distribution policy T t_max =
         Inr (tab3 (length policy) (length policy) (nat (t_max + 1))
               (\<lambda>s0 s t. rho_spec (T_pi policy T) (length policy) s0 s t))"
proof -
  define S where "S = length policy"
  define N where "N = nat (t_max + 1)"
  have N: "0 < N" "N = Suc (nat t_max)" "nat t_max < N" using assms(3) by (simp_all add: N_def)
  have "calculate_state_distribution policy T t_max =
        Inr (fold (\<lambda>t rho'. assign_slice S rho' t
                (einsum_step S (tab2 S S (T_pi policy T)) rho' t)) [1 ..< N]
              (fold (\<lambda>s rho'. set3 rho' s s 0 1) [0 ..< S] (zeros3 S S N)))"
    using assms(3)
    by (simp add: calculate_state_distribution_def Let_def reduce_policy_tab2 [OF assms(1,2)]
        S_def N_def)
  also have "fold (\<lambda>s rho'. set3 rho' s s 0 1) [0 ..< S] (zeros3 S S N) =
             tab3 S S N (\<lambda>s0 s t. if s = s0 \<and> t = 0 then 1 else 0)"
    unfolding zeros3_tab3 using N(1)
    by (auto simp: rho_init_tab3 intro!: tab3_cong)
  also have "fold (\<lambda>t rho'. assign_slice S rho' t
                (einsum_step S (tab2 S S (T_pi policy T)) rho' t)) [1 ..< N]
              (tab3 S S N (\<lambda>s0 s t. if s = s0 \<and> t = 0 then 1 else 0)) =
             tab3 S S N (\<lambda>s0 s t. if t \<le> nat t_max then rho_spec (T_pi policy T) S s0 s t else 0)"
    unfolding N(2) by (rule time_loop_tab3) (simp add: N(2) [symmetric] N(3))
  also have "\<dots> = tab3 S S N (\<lambda>s0 s t. rho_spec (T_pi policy T) S s0 s t)"
    by (rule tab3_cong) (simp add: N(2))
  finally show ?thesis by (simp add: S_def N_def)
qed

section \<open>Properties of the propagator\<close>


text \<open>
  Claim C6. For a tensor of shape \<open>(A, S, S)\<close>, a policy of length \<open>S\<close> with action
  indices in range and \<open>t_max \<ge> 0\<close>, the propagator returns \<open>rho\<close> with
  \<open>rho(s0, s, 0) = 1\<close> if \<open>s = s0\<close> and 0 otherwise, and for every \<open>1 \<le> t \<le> t_max\<close>,
  \<open>rho(s0, s, t)\<close> is the sum over \<open>s'\<close> of \<open>T_pi(s', s) * rho(s0, s', t-1)\<close>, where
  \<open>T_pi(s, s') = T[policy(s), s, s']\<close>.
\<close>

theorem propagator_recurrence:
  assumes "has_shape3 A (length policy) (length policy) T" "policy_in_range A policy" "0 \<le> t_max"
  shows "\<exists>rho. calculate_state_distribution policy T t_max = Inr rho \<and>
           (\<forall>s0 s. s0 < length policy \<and> s < length policy \<longrightarrow>
              rho ! s0 ! s ! 0 = (if s = s0 then 1 else 0) \<and>
              (\<forall>t. 1 \<le> t \<and> t \<le> nat t_max \<longrightarrow>
                 rho ! s0 ! s ! t =
                   (\<Sum>s'<length policy. T_pi policy T s' s * rho ! s0 ! s' ! (t - 1))))"
proof -
  define S where "S = length policy"
  define rho where "rho = tab3 S S (nat (t_max + 1)) (\<lambda>s0 s t. rho_spec (T_pi policy T) S s0 s t)"
  have run: "calculate_state_distribution policy T t_max = Inr rho"
    unfolding rho_def S_def by (rule calculate_state_distribution_tab3) fact+
  have nth: "rho ! s0 ! s ! t = rho_spec (T_pi policy T) S s0 s t"
    if "s0 < S" "s < S" "t \<le> nat t_max" for s0 s t
    using that assms(3) by (simp add: rho_def tab3_nth)
  have base: "rho ! s0 ! s ! 0 = (if s = s0 then 1 else 0)" if "s0 < S" "s < S" for s0 s
    using nth [OF that, of 0] by simp
  have step: "rho ! s0 ! s ! t = (\<Sum>s'<S. T_pi policy T s' s * rho ! s0 ! s' ! (t - 1))"
    if h: "s0 < S" "s < S" "1 \<le> t" "t \<le> nat t_max" for s0 s t
  proof -
    obtain u where u: "t = Suc u" using h(3) by (cases t) auto
    have "rho ! s0 ! s ! t = (\<Sum>s'<S. T_pi policy T s' s * rho_spec (T_pi policy T) S s0 s' u)"
      using nth [OF h(1,2,4)]
      by (simp add: u interv_sum_list_conv_sum_set_nat atLeast0LessThan)
    also have "\<dots> = (\<Sum>s'<S. T_pi policy T s' s * rho ! s0 ! s' ! u)"
      by (rule sum.cong) (use h u in \<open>simp_all add: nth\<close>)
    finally show ?thesis by (simp add: u)
  qed
  show ?thesis
    unfolding S_def [symmetric] using run base step by blast
qed

theorem propagator_recurrence_witness:
  "has_shape3 2 (length [0, 1, 0 :: int]) (length [0, 1, 0 :: int])
     [[[0, 1 / 2, 1 / 2], [0, 0, 1], [0, 0, 1]], [[0, 0, 1], [0, 0, 1], [0, 0, 1]]] \<and>
   policy_in_range 2 [0, 1, 0] \<and> (0::int) \<le> 2 \<and>
   (\<exists>rho. calculate_state_distribution [0, 1, 0]
       [[[0, 1 / 2, 1 / 2], [0, 0, 1], [0, 0, 1]], [[0, 0, 1], [0, 0, 1], [0, 0, 1]]] 2 = Inr rho \<and>
     (\<forall>s0 s. s0 < length [0, 1, 0 :: int] \<and> s < length [0, 1, 0 :: int] \<longrightarrow>
        rho ! s0 ! s ! 0 = (if s = s0 then 1 else 0) \<and>
        (\<forall>t. 1 \<le> t \<and> t \<le> nat 2 \<longrightarrow>
           rho ! s0 ! s ! t =
             (\<Sum>s'<length [0, 1, 0 :: int].
                T_pi [0, 1, 0]
                  [[[0, 1 / 2, 1 / 2], [0, 0, 1], [0, 0, 1]], [[0, 0, 1], [0, 0, 1], [0, 0, 1]]]
                  s' s * rho ! s0 ! s' ! (t - 1)))))"
proof -
  have h1: "has_shape3 2 (length [0, 1, 0 :: int]) (length [0, 1, 0 :: int])
     [[[0, 1 / 2, 1 / 2], [0, 0, 1], [0, 0, 1]], [[0, 0, 1], [0, 0, 1], [0, 0, 1]]]"
    by (simp add: has_shape3_def)
  have h2: "policy_in_range 2 [0, 1, 0]"
    by (simp add: policy_in_range_def)
  have h3: "(0::int) \<le> 2" by simp
  show ?thesis
    using h1 h2 h3 propagator_recurrence [OF h1 h2 h3] by blast
qed



section \<open>The sweep of the solver on two actions\<close>

lemma sum_nth_map2:
  assumes "length row = length V"
  shows "(\<Sum>s'\<leftarrow>[0 ..< length V]. row ! s' * V ! s') = sum_list (map2 (*) row (V::rat list))"
proof -
  have "map (\<lambda>s'. row ! s' * V ! s') [0 ..< length V] = map2 (*) row V"
    using assms by (intro nth_equalityI) simp_all
  then show ?thesis by simp
qed

lemma argmax_pair: "argmax [q0, q1] = (if q0 < q1 then 1 else 0)"
  by (simp add: argmax_def numeral_2_eq_2)

lemma bellman_rows:
  assumes "length M0 = length V" "length M1 = length V" "length R = length V"
    and "list_all (\<lambda>row. length row = length V) M0"
    and "list_all (\<lambda>row. length row = length V) M1"
  shows "bellman [M0, M1] R d V =
         (map (\<lambda>x. fst (sweep_state d V x)) (zip M0 (zip M1 R)),
          map (\<lambda>x. snd (sweep_state d V x)) (zip M0 (zip M1 R)))"
proof -
  have q: "q_value [M0, M1] R d V s 0 = R ! s ! 0 + d * sum_list (map2 (*) (M0 ! s) V)"
    "q_value [M0, M1] R d V s (Suc 0) = R ! s ! Suc 0 + d * sum_list (map2 (*) (M1 ! s) V)"
    if "s < length V" for s
  proof -
    have "length (M0 ! s) = length V" "length (M1 ! s) = length V"
      using assms that by (simp_all add: list_all_length)
    then have "(\<Sum>s'\<leftarrow>[0 ..< length V]. M0 ! s ! s' * V ! s') = sum_list (map2 (*) (M0 ! s) V)"
      "(\<Sum>s'\<leftarrow>[0 ..< length V]. M1 ! s ! s' * V ! s') = sum_list (map2 (*) (M1 ! s) V)"
      by (simp_all add: sum_nth_map2)
    then show "q_value [M0, M1] R d V s 0 = R ! s ! 0 + d * sum_list (map2 (*) (M0 ! s) V)"
      "q_value [M0, M1] R d V s (Suc 0) = R ! s ! Suc 0 + d * sum_list (map2 (*) (M1 ! s) V)"
      by (simp_all add: q_value_def)
  qed
  have two: "[0 ..< length [M0, M1]] = [0, Suc 0]"
    by (simp add: upt_rec)
  have len: "length (zip M0 (zip M1 R)) = length V" using assms by simp
  have "map (\<lambda>qs. Max (set qs)) (map (\<lambda>s. map (q_value [M0, M1] R d V s) [0 ..< length [M0, M1]])
          [0 ..< length V]) = map (\<lambda>x. fst (sweep_state d V x)) (zip M0 (zip M1 R))"
    using assms(1-3) by (intro nth_equalityI) (simp_all add: two q sweep_state_def Let_def max.commute)
  moreover have "map argmax (map (\<lambda>s. map (q_value [M0, M1] R d V s) [0 ..< length [M0, M1]])
          [0 ..< length V]) = map (\<lambda>x. snd (sweep_state d V x)) (zip M0 (zip M1 R))"
    using assms(1-3) by (intro nth_equalityI) (simp_all add: two q sweep_state_def Let_def argmax_pair)
  ultimately show ?thesis
    unfolding bellman_def Let_def by simp
qed

lemma vi_loop_iterate:
  assumes "\<And>j. j < n \<Longrightarrow>
      \<not> converged_test d eps (fst (vi_iterate T R d (Suc j))) (fst (vi_iterate T R d j))"
    and "converged_test d eps (fst (vi_iterate T R d (Suc n))) (fst (vi_iterate T R d n))"
    and "j \<le> n" "n - j \<le> fuel"
  shows "vi_loop T R d eps fuel j (fst (vi_iterate T R d j)) =
         (fst (vi_iterate T R d (Suc n)), snd (vi_iterate T R d (Suc n)), Suc n, True)"
  using assms(3,4)
proof (induction fuel arbitrary: j)
  case 0
  then have "j = n" by simp
  then show ?case
    using assms(2) by (subst vi_loop.simps) (simp add: case_prod_unfold)
next
  case (Suc fuel)
  show ?case
  proof (cases "j = n")
    case True
    then show ?thesis
      using assms(2) by (subst vi_loop.simps) (simp add: case_prod_unfold)
  next
    case False
    then have j: "j < n" "Suc j \<le> n" "n - Suc j \<le> fuel" using Suc.prems by simp_all
    have "vi_loop T R d eps (Suc fuel) j (fst (vi_iterate T R d j)) =
          vi_loop T R d eps fuel (Suc j) (fst (vi_iterate T R d (Suc j)))"
      using assms(1) [OF j(1)] by (subst vi_loop.simps) (simp add: case_prod_unfold)
    then show ?thesis using Suc.IH [OF j(2,3)] by simp
  qed
qed

lemma max_abs_fold: "Max (set (map abs (x # xs))) = fold max (map abs xs) \<bar>x::rat\<bar>"
  unfolding list.map by (rule Max.set_eq_fold)

lemma example_lengths:
  "length (example_T ! 0) = 23" "length (example_T ! 1) = 23" "length example_R = 23"
  "list_all (\<lambda>row. length row = 23) (example_T ! 0)"
  "list_all (\<lambda>row. length row = 23) (example_T ! 1)"
  by (simp_all add: example_T_def example_R_def)

lemma example_sweep:
  assumes "length V = 23"
  shows "bellman example_T example_R 1 V =
         (map (\<lambda>x. fst (sweep_state 1 V x)) (zip (example_T ! 0) (zip (example_T ! 1) example_R)),
          map (\<lambda>x. snd (sweep_state 1 V x)) (zip (example_T ! 0) (zip (example_T ! 1) example_R)))"
proof -
  have "example_T = [example_T ! 0, example_T ! 1]"
    by (simp add: example_T_def)
  then have "bellman example_T example_R 1 V = bellman [example_T ! 0, example_T ! 1] example_R 1 V"
    by simp
  also have "\<dots> = (map (\<lambda>x. fst (sweep_state 1 V x)) (zip (example_T ! 0) (zip (example_T ! 1) example_R)),
          map (\<lambda>x. snd (sweep_state 1 V x)) (zip (example_T ! 0) (zip (example_T ! 1) example_R)))"
    by (rule bellman_rows) (use example_lengths assms in simp_all)
  finally show ?thesis .
qed

lemma zeros23: "replicate 23 (0::rat) = [0, 0, 0, 0, 0, 0, 0, 0, 0, 0, 0, 0, 0, 0, 0, 0, 0, 0, 0, 0, 0, 0, 0]"
  by code_simp

lemma vi_iterate_step:
  "0 < k \<Longrightarrow> vi_iterate T R d k = bellman T R d (fst (vi_iterate T R d (k - 1)))"
  by (cases k) simp_all

lemma example_iterate_1:
  "vi_iterate example_T example_R 1 1 =
     ([0, 1, 2, 3, 4, 5, 6, 7, 8, 9, 10, 11, 12, 13, 14, 15, 16, 17, 18, 19, 20, 21, 0],
      [0, 1, 1, 1, 1, 1, 1, 1, 1, 1, 1, 1, 1, 1, 1, 1, 1, 1, 1, 1, 1, 1, 0])"
proof -
  have "vi_iterate example_T example_R 1 1 =
        bellman example_T example_R 1 (fst (vi_iterate example_T example_R 1 0))"
    by (subst vi_iterate_step) simp_all
  also have "\<dots> =
     ([0, 1, 2, 3, 4, 5, 6, 7, 8, 9, 10, 11, 12, 13, 14, 15, 16, 17, 18, 19, 20, 21, 0],
      [0, 1, 1, 1, 1, 1, 1, 1, 1, 1, 1, 1, 1, 1, 1, 1, 1, 1, 1, 1, 1, 1, 0])"
    unfolding vi_iterate.simps(1) example_lengths(3) fst_conv zeros23
    by (subst example_sweep, simp)
       (simp add: example_T_def example_R_def sweep_state_def Let_def)
  finally show ?thesis .
qed

lemma example_iterate_2:
  "vi_iterate example_T example_R 1 2 =
     ([21 / 2, 23 / 2, 57 / 5, 45 / 4, 221 / 20, 54 / 5, 21 / 2, 203 / 20, 39 / 4, 93 / 10, 10, 11, 12, 13, 14, 15, 16, 17, 18, 19, 20, 21, 0],
      [0, 0, 0, 0, 0, 0, 0, 0, 0, 0, 1, 1, 1, 1, 1, 1, 1, 1, 1, 1, 1, 1, 0])"
proof -
  have "vi_iterate example_T example_R 1 2 =
        bellman example_T example_R 1 (fst (vi_iterate example_T example_R 1 1))"
    by (subst vi_iterate_step) simp_all
  also have "\<dots> =
     ([21 / 2, 23 / 2, 57 / 5, 45 / 4, 221 / 20, 54 / 5, 21 / 2, 203 / 20, 39 / 4, 93 / 10, 10, 11, 12, 13, 14, 15, 16, 17, 18, 19, 20, 21, 0],
      [0, 0, 0, 0, 0, 0, 0, 0, 0, 0, 1, 1, 1, 1, 1, 1, 1, 1, 1, 1, 1, 1, 0])"
    unfolding example_iterate_1 fst_conv
    by (subst example_sweep, simp)
       (simp add: example_T_def example_R_def sweep_state_def Let_def)
  finally show ?thesis .
qed

lemma example_iterate_3:
  "vi_iterate example_T example_R 1 3 =
     ([2607 / 200, 1351 / 100, 647 / 50, 4951 / 400, 473 / 40, 2257 / 200, 269 / 25, 4101 / 400, 1953 / 200, 93 / 10, 10, 11, 12, 13, 14, 15, 16, 17, 18, 19, 20, 21, 0],
      [0, 0, 0, 0, 0, 0, 0, 0, 0, 0, 1, 1, 1, 1, 1, 1, 1, 1, 1, 1, 1, 1, 0])"
proof -
  have "vi_iterate example_T example_R 1 3 =
        bellman example_T example_R 1 (fst (vi_iterate example_T example_R 1 2))"
    by (subst vi_iterate_step) simp_all
  also have "\<dots> =
     ([2607 / 200, 1351 / 100, 647 / 50, 4951 / 400, 473 / 40, 2257 / 200, 269 / 25, 4101 / 400, 1953 / 200, 93 / 10, 10, 11, 12, 13, 14, 15, 16, 17, 18, 19, 20, 21, 0],
      [0, 0, 0, 0, 0, 0, 0, 0, 0, 0, 1, 1, 1, 1, 1, 1, 1, 1, 1, 1, 1, 1, 0])"
    unfolding example_iterate_2 fst_conv
    by (subst example_sweep, simp)
       (simp add: example_T_def example_R_def sweep_state_def Let_def)
  finally show ?thesis .
qed

lemma example_iterate_4:
  "vi_iterate example_T example_R 1 4 =
     ([53403 / 4000, 54901 / 4000, 52313 / 4000, 3987 / 320, 18989 / 1600, 90431 / 8000, 86127 / 8000, 41013 / 4000, 1953 / 200, 93 / 10, 10, 11, 12, 13, 14, 15, 16, 17, 18, 19, 20, 21, 0],
      [0, 0, 0, 0, 0, 0, 0, 0, 0, 0, 1, 1, 1, 1, 1, 1, 1, 1, 1, 1, 1, 1, 0])"
proof -
  have "vi_iterate example_T example_R 1 4 =
        bellman example_T example_R 1 (fst (vi_iterate example_T example_R 1 3))"
    by (subst vi_iterate_step) simp_all
  also have "\<dots> =
     ([53403 / 4000, 54901 / 4000, 52313 / 4000, 3987 / 320, 18989 / 1600, 90431 / 8000, 86127 / 8000, 41013 / 4000, 1953 / 200, 93 / 10, 10, 11, 12, 13, 14, 15, 16, 17, 18, 19, 20, 21, 0],
      [0, 0, 0, 0, 0, 0, 0, 0, 0, 0, 1, 1, 1, 1, 1, 1, 1, 1, 1, 1, 1, 1, 0])"
    unfolding example_iterate_3 fst_conv
    by (subst example_sweep, simp)
       (simp add: example_T_def example_R_def sweep_state_def Let_def)
  finally show ?thesis .
qed

lemma example_iterate_5:
  "vi_iterate example_T example_R 1 5 =
     ([267519 / 20000, 43967 / 3200, 523431 / 40000, 1994049 / 160000, 59347 / 5000, 1808673 / 160000, 861273 / 80000, 41013 / 4000, 1953 / 200, 93 / 10, 10, 11, 12, 13, 14, 15, 16, 17, 18, 19, 20, 21, 0],
      [0, 0, 0, 0, 0, 0, 0, 0, 0, 0, 1, 1, 1, 1, 1, 1, 1, 1, 1, 1, 1, 1, 0])"
proof -
  have "vi_iterate example_T example_R 1 5 =
        bellman example_T example_R 1 (fst (vi_iterate example_T example_R 1 4))"
    by (subst vi_iterate_step) simp_all
  also have "\<dots> =
     ([267519 / 20000, 43967 / 3200, 523431 / 40000, 1994049 / 160000, 59347 / 5000, 1808673 / 160000, 861273 / 80000, 41013 / 4000, 1953 / 200, 93 / 10, 10, 11, 12, 13, 14, 15, 16, 17, 18, 19, 20, 21, 0],
      [0, 0, 0, 0, 0, 0, 0, 0, 0, 0, 1, 1, 1, 1, 1, 1, 1, 1, 1, 1, 1, 1, 0])"
    unfolding example_iterate_4 fst_conv
    by (subst example_sweep, simp)
       (simp add: example_T_def example_R_def sweep_state_def Let_def)
  finally show ?thesis .
qed

lemma example_iterate_6:
  "vi_iterate example_T example_R 1 6 =
     ([21403683 / 1600000, 5496127 / 400000, 10468823 / 800000, 39881243 / 3200000, 37982139 / 3200000, 18086733 / 1600000, 861273 / 80000, 41013 / 4000, 1953 / 200, 93 / 10, 10, 11, 12, 13, 14, 15, 16, 17, 18, 19, 20, 21, 0],
      [0, 0, 0, 0, 0, 0, 0, 0, 0, 0, 1, 1, 1, 1, 1, 1, 1, 1, 1, 1, 1, 1, 0])"
proof -
  have "vi_iterate example_T example_R 1 6 =
        bellman example_T example_R 1 (fst (vi_iterate example_T example_R 1 5))"
    by (subst vi_iterate_step) simp_all
  also have "\<dots> =
     ([21403683 / 1600000, 5496127 / 400000, 10468823 / 800000, 39881243 / 3200000, 37982139 / 3200000, 18086733 / 1600000, 861273 / 80000, 41013 / 4000, 1953 / 200, 93 / 10, 10, 11, 12, 13, 14, 15, 16, 17, 18, 19, 20, 21, 0],
      [0, 0, 0, 0, 0, 0, 0, 0, 0, 0, 1, 1, 1, 1, 1, 1, 1, 1, 1, 1, 1, 1, 0])"
    unfolding example_iterate_5 fst_conv
    by (subst example_sweep, simp)
       (simp add: example_T_def example_R_def sweep_state_def Let_def)
  finally show ?thesis .
qed

lemma example_iterate_7:
  "vi_iterate example_T example_R 1 7 =
     ([214037619 / 16000000, 43969073 / 3200000, 104688271 / 8000000, 31904997 / 2560000, 379821393 / 32000000, 18086733 / 1600000, 861273 / 80000, 41013 / 4000, 1953 / 200, 93 / 10, 10, 11, 12, 13, 14, 15, 16, 17, 18, 19, 20, 21, 0],
      [0, 0, 0, 0, 0, 0, 0, 0, 0, 0, 1, 1, 1, 1, 1, 1, 1, 1, 1, 1, 1, 1, 0])"
proof -
  have "vi_iterate example_T example_R 1 7 =
        bellman example_T example_R 1 (fst (vi_iterate example_T example_R 1 6))"
    by (subst vi_iterate_step) simp_all
  also have "\<dots> =
     ([214037619 / 16000000, 43969073 / 3200000, 104688271 / 8000000, 31904997 / 2560000, 379821393 / 32000000, 18086733 / 1600000, 861273 / 80000, 41013 / 4000, 1953 / 200, 93 / 10, 10, 11, 12, 13, 14, 15, 16, 17, 18, 19, 20, 21, 0],
      [0, 0, 0, 0, 0, 0, 0, 0, 0, 0, 1, 1, 1, 1, 1, 1, 1, 1, 1, 1, 1, 1, 0])"
    unfolding example_iterate_6 fst_conv
    by (subst example_sweep, simp)
       (simp add: example_T_def example_R_def sweep_state_def Let_def)
  finally show ?thesis .
qed

section \<open>The published example\<close>

lemma upt23:
  "[0 ..< 23] = [0, 1, 2, 3, 4, 5, 6, 7, 8, 9, 10, 11, 12, 13, 14, 15, 16, 17, 18, 19, 20, 21, 22]"
  by code_simp

lemma upt2: "[0 ..< 2] = [0, 1]"
  by code_simp

lemma example_T_tab3: "tab3 2 23 23 (trans_entry 20 23) = example_T"
  unfolding tab3_def upt23 upt2 example_T_def
  by (simp add: trans_entry_def)

lemma example_R_tab2:
  "tab2 23 2 (\<lambda>s a. if s < 22 \<and> a = Suc 0 then of_nat s else 0) = example_R"
  unfolding tab2_def upt23 upt2 example_R_def
  by simp

lemma example_model: "build_model 20 21 = Inr (example_T, example_R)"
proof -
  have "make_transition_matrix 20 21 = Inr example_T"
    using make_transition_matrix_tab3 [of 20 21] by (simp add: example_T_tab3)
  moreover have "make_reward_matrix 21 = Inr example_R"
    using make_reward_matrix_tab2 [of 21] by (simp add: example_R_tab2)
  ultimately show ?thesis by (simp add: build_model_def)
qed

lemma example_valid: "valid_model example_T example_R"
  unfolding valid_model_def example_T_def example_R_def
  by simp

lemma example_test_0:
  "converged_test 1 (1 / 1000) (fst (vi_iterate example_T example_R 1 (Suc 0)))
     (fst (vi_iterate example_T example_R 1 0)) = False"
proof -
  show ?thesis
    unfolding example_iterate_1 [unfolded One_nat_def] vi_iterate.simps(1) example_lengths(3) zeros23 fst_conv converged_test_def Let_def
    by (simp add: max_abs_fold)
qed

lemma example_test_1:
  "converged_test 1 (1 / 1000) (fst (vi_iterate example_T example_R 1 (Suc 1)))
     (fst (vi_iterate example_T example_R 1 1)) = False"
proof -
  have suc: "Suc 1 = 2" by simp
  show ?thesis
    unfolding suc example_iterate_2 example_iterate_1 fst_conv converged_test_def Let_def
    by (simp add: max_abs_fold)
qed

lemma example_test_2:
  "converged_test 1 (1 / 1000) (fst (vi_iterate example_T example_R 1 (Suc 2)))
     (fst (vi_iterate example_T example_R 1 2)) = False"
proof -
  have suc: "Suc 2 = 3" by simp
  show ?thesis
    unfolding suc example_iterate_3 example_iterate_2 fst_conv converged_test_def Let_def
    by (simp add: max_abs_fold)
qed

lemma example_test_3:
  "converged_test 1 (1 / 1000) (fst (vi_iterate example_T example_R 1 (Suc 3)))
     (fst (vi_iterate example_T example_R 1 3)) = False"
proof -
  have suc: "Suc 3 = 4" by simp
  show ?thesis
    unfolding suc example_iterate_4 example_iterate_3 fst_conv converged_test_def Let_def
    by (simp add: max_abs_fold)
qed

lemma example_test_4:
  "converged_test 1 (1 / 1000) (fst (vi_iterate example_T example_R 1 (Suc 4)))
     (fst (vi_iterate example_T example_R 1 4)) = False"
proof -
  have suc: "Suc 4 = 5" by simp
  show ?thesis
    unfolding suc example_iterate_5 example_iterate_4 fst_conv converged_test_def Let_def
    by (simp add: max_abs_fold)
qed

lemma example_test_5:
  "converged_test 1 (1 / 1000) (fst (vi_iterate example_T example_R 1 (Suc 5)))
     (fst (vi_iterate example_T example_R 1 5)) = False"
proof -
  have suc: "Suc 5 = 6" by simp
  show ?thesis
    unfolding suc example_iterate_6 example_iterate_5 fst_conv converged_test_def Let_def
    by (simp add: max_abs_fold)
qed

lemma example_test_6:
  "converged_test 1 (1 / 1000) (fst (vi_iterate example_T example_R 1 (Suc 6)))
     (fst (vi_iterate example_T example_R 1 6)) = True"
proof -
  have suc: "Suc 6 = 7" by simp
  show ?thesis
    unfolding suc example_iterate_7 example_iterate_6 fst_conv converged_test_def Let_def
    by (simp add: max_abs_fold)
qed

lemma example_not_converged:
  assumes "j < 6"
  shows "\<not> converged_test 1 (1 / 1000) (fst (vi_iterate example_T example_R 1 (Suc j)))
           (fst (vi_iterate example_T example_R 1 j))"
proof -
  consider "j = 0" | "j = 1" | "j = 2" | "j = 3" | "j = 4" | "j = 5"
    using assms by linarith
  then show ?thesis
  proof cases
    case 1
    show ?thesis unfolding 1 by (simp only: example_test_0 not_False_eq_True)
  next
    case 2
    show ?thesis unfolding 2 by (simp only: example_test_1 not_False_eq_True)
  next
    case 3
    show ?thesis unfolding 3 by (simp only: example_test_2 not_False_eq_True)
  next
    case 4
    show ?thesis unfolding 4 by (simp only: example_test_3 not_False_eq_True)
  next
    case 5
    show ?thesis unfolding 5 by (simp only: example_test_4 not_False_eq_True)
  next
    case 6
    show ?thesis unfolding 6 by (simp only: example_test_5 not_False_eq_True)
  qed
qed

lemma example_solve:
  assumes "7 \<le> max_iter"
  shows "solve example_T example_R 1 (1 / 1000) max_iter =
         Inr (fst (vi_iterate example_T example_R 1 7), snd (vi_iterate example_T example_R 1 7),
              7, True)"
proof -
  have fuel: "6 - 0 \<le> nat max_iter - 1" using assms by simp
  have conv: "converged_test 1 (1 / 1000) (fst (vi_iterate example_T example_R 1 (Suc 6)))
      (fst (vi_iterate example_T example_R 1 6))"
    by (simp only: example_test_6)
  have "vi_loop example_T example_R 1 (1 / 1000) (nat max_iter - 1) 0
          (fst (vi_iterate example_T example_R 1 0)) =
        (fst (vi_iterate example_T example_R 1 (Suc 6)),
         snd (vi_iterate example_T example_R 1 (Suc 6)), Suc 6, True)"
    by (rule vi_loop_iterate [OF example_not_converged conv _ fuel]) simp_all
  moreover have "Suc 6 = 7" by simp
  ultimately have "vi_loop example_T example_R 1 (1 / 1000) (nat max_iter - 1) 0
          (replicate (length example_R) 0) =
        (fst (vi_iterate example_T example_R 1 7), snd (vi_iterate example_T example_R 1 7), 7, True)"
    by (simp only: vi_iterate.simps(1) fst_conv)
  then show ?thesis
    using assms example_valid by (simp add: solve_def)
qed

lemma upt_0_10: "[0 ..< 10] = [0, 1, 2, 3, 4, 5, 6, 7, 8, 9]"
  by code_simp

lemma upt_10_22: "[10 ..< 22] = [10, 11, 12, 13, 14, 15, 16, 17, 18, 19, 20, 21]"
  by code_simp

lemma in_upt_0_10: "s \<le> 9 \<Longrightarrow> s \<in> set [0 ..< 10]"
  unfolding set_upt by simp

lemma in_upt_10_22: "10 \<le> s \<and> s \<le> 21 \<Longrightarrow> s \<in> set [10 ..< 22]"
  unfolding set_upt by simp

text \<open>
  Claim C1. Value iteration on the model built with \<open>n_sides = 20\<close>, \<open>max_score = 21\<close>,
  with \<open>discount = 1\<close> and \<open>epsilon = 0.001\<close>, converges (within any iteration cap of at
  least 7, such as the notebook's 1000), and the policy it returns is \<open>CONTINUE\<close> for
  every state \<open>0 \<le> s \<le> 9\<close> and \<open>STOP\<close> for every state \<open>10 \<le> s \<le> 21\<close>.
\<close>

theorem value_iteration_policy:
  assumes "7 \<le> max_iter"
  shows "\<exists>T R V policy k. build_model 20 21 = Inr (T, R) \<and>
           solve T R 1 (1 / 1000) max_iter = Inr (V, policy, k, True) \<and>
           (\<forall>s. s \<le> 9 \<longrightarrow> policy ! s = CONTINUE) \<and>
           (\<forall>s. 10 \<le> s \<and> s \<le> 21 \<longrightarrow> policy ! s = STOP)"
proof -
  have roll: "\<forall>s\<in>set [0 ..< 10]. snd (vi_iterate example_T example_R 1 7) ! s = CONTINUE"
    unfolding example_iterate_7 snd_conv upt_0_10 by (simp add: CONTINUE_def)
  have stay: "\<forall>s\<in>set [10 ..< 22]. snd (vi_iterate example_T example_R 1 7) ! s = STOP"
    unfolding example_iterate_7 snd_conv upt_10_22 by (simp add: STOP_def)
  have "\<forall>s. s \<le> 9 \<longrightarrow> snd (vi_iterate example_T example_R 1 7) ! s = CONTINUE"
    using roll in_upt_0_10 by blast
  moreover have "\<forall>s. 10 \<le> s \<and> s \<le> 21 \<longrightarrow> snd (vi_iterate example_T example_R 1 7) ! s = STOP"
    using stay in_upt_10_22 by blast
  ultimately show ?thesis
    using example_model example_solve [OF assms] by blast
qed

theorem value_iteration_policy_witness:
  "(7::int) \<le> 1000 \<and>
   (\<exists>T R V policy k. build_model 20 21 = Inr (T, R) \<and>
      solve T R 1 (1 / 1000) 1000 = Inr (V, policy, k, True) \<and>
      (\<forall>s. s \<le> 9 \<longrightarrow> policy ! s = CONTINUE) \<and>
      (\<forall>s. 10 \<le> s \<and> s \<le> 21 \<longrightarrow> policy ! s = STOP))"
proof -
  have h: "(7::int) \<le> 1000" by simp
  show ?thesis using h value_iteration_policy [OF h] by blast
qed

text \<open>
  Claim C2. For the same run, the value function that the solver returns has
  \<open>V(s) = s\<close> exactly for every state \<open>10 \<le> s \<le> 21\<close>.
\<close>

theorem value_iteration_value:
  assumes "7 \<le> max_iter"
  shows "\<exists>T R V policy k. build_model 20 21 = Inr (T, R) \<and>
           solve T R 1 (1 / 1000) max_iter = Inr (V, policy, k, True) \<and>
           (\<forall>s. 10 \<le> s \<and> s \<le> 21 \<longrightarrow> V ! s = of_nat s)"
proof -
  have "\<forall>s\<in>set [10 ..< 22]. fst (vi_iterate example_T example_R 1 7) ! s = of_nat s"
    unfolding example_iterate_7 fst_conv upt_10_22 by simp
  then have "\<forall>s. 10 \<le> s \<and> s \<le> 21 \<longrightarrow> fst (vi_iterate example_T example_R 1 7) ! s = of_nat s"
    using in_upt_10_22 by blast
  then show ?thesis
    using example_model example_solve [OF assms] by blast
qed

theorem value_iteration_value_witness:
  "(7::int) \<le> 1000 \<and>
   (\<exists>T R V policy k. build_model 20 21 = Inr (T, R) \<and>
      solve T R 1 (1 / 1000) 1000 = Inr (V, policy, k, True) \<and>
      (\<forall>s. 10 \<le> s \<and> s \<le> 21 \<longrightarrow> V ! s = of_nat s))"
proof -
  have h: "(7::int) \<le> 1000" by simp
  show ?thesis using h value_iteration_value [OF h] by blast
qed

end
